theory Spec2Isabelle
  imports Main "HOL-Library.Word"
begin

unbundle bit_operations_syntax

section \<open>Board profiles of Boards.h\<close>

text \<open>
  Boards.h selects one block of constants and macros with the preprocessor. There are
  three outcomes: an ATmega168/328P whose core defines \<open>NUM_ANALOG_INPUTS == 6\<close>,
  an ATmega168/328P otherwise, and an ATmega1280/2560 (Arduino Mega). Any other target
  stops at \<open>#error\<close>. A board profile is one constructor of \<open>board\<close>, and every
  constant and macro takes the profile as its first argument.

  The macros are untyped; their argument is a pin number that C promotes to \<open>int\<close>
  before it is compared or subtracted, so pins are modelled as \<open>int\<close> and
  \<open>(p) - 2\<close> may be negative. \<open>MAX_SERVOS\<close> comes from Servo.h (0 when that header
  is absent) and is a parameter \<open>ms\<close> of the servo macro.
\<close>

datatype board = ATmega328_A6 | ATmega328_A8 | ATmega2560

fun TOTAL_ANALOG_PINS :: "board \<Rightarrow> int" where
  "TOTAL_ANALOG_PINS ATmega328_A6 = 6"
| "TOTAL_ANALOG_PINS ATmega328_A8 = 8"
| "TOTAL_ANALOG_PINS ATmega2560 = 16"

fun TOTAL_PINS :: "board \<Rightarrow> int" where
  "TOTAL_PINS ATmega328_A6 = 16"
| "TOTAL_PINS ATmega328_A8 = 22"
| "TOTAL_PINS ATmega2560 = 70"

fun VERSION_BLINK_PIN :: "board \<Rightarrow> int" where
  "VERSION_BLINK_PIN ATmega328_A6 = 99"
| "VERSION_BLINK_PIN ATmega328_A8 = 99"
| "VERSION_BLINK_PIN ATmega2560 = 13"

fun IS_PIN_DIGITAL :: "board \<Rightarrow> int \<Rightarrow> bool" where
  "IS_PIN_DIGITAL ATmega328_A6 p = ((p \<ge> 3 \<and> p \<le> 8) \<or> (p \<ge> 14 \<and> p \<le> 19))"
| "IS_PIN_DIGITAL ATmega328_A8 p = ((p \<ge> 3 \<and> p \<le> 8) \<or> (p \<ge> 14 \<and> p \<le> 19))"
| "IS_PIN_DIGITAL ATmega2560 p = (p \<ge> 2 \<and> p < TOTAL_PINS ATmega2560)"

fun IS_PIN_ANALOG :: "board \<Rightarrow> int \<Rightarrow> bool" where
  "IS_PIN_ANALOG ATmega328_A6 p = (p \<ge> 14 \<and> p < 14 + TOTAL_ANALOG_PINS ATmega328_A6)"
| "IS_PIN_ANALOG ATmega328_A8 p = (p \<ge> 14 \<and> p < 14 + TOTAL_ANALOG_PINS ATmega328_A8)"
| "IS_PIN_ANALOG ATmega2560 p = (p \<ge> 54 \<and> p < TOTAL_PINS ATmega2560)"

fun IS_PIN_SERVO :: "board \<Rightarrow> int \<Rightarrow> int \<Rightarrow> bool" where
  "IS_PIN_SERVO ATmega328_A6 ms p = (IS_PIN_DIGITAL ATmega328_A6 p \<and> p - 2 < ms)"
| "IS_PIN_SERVO ATmega328_A8 ms p = (IS_PIN_DIGITAL ATmega328_A8 p \<and> p - 2 < ms)"
| "IS_PIN_SERVO ATmega2560 ms p = (p \<ge> 2 \<and> p - 2 < ms)"

fun IS_PIN_I2C :: "board \<Rightarrow> int \<Rightarrow> bool" where
  "IS_PIN_I2C ATmega328_A6 p = (p = 18 \<or> p = 19)"
| "IS_PIN_I2C ATmega328_A8 p = (p = 18 \<or> p = 19)"
| "IS_PIN_I2C ATmega2560 p = (p = 20 \<or> p = 21)"

fun PIN_TO_DIGITAL :: "board \<Rightarrow> int \<Rightarrow> int" where
  "PIN_TO_DIGITAL ATmega328_A6 p = p"
| "PIN_TO_DIGITAL ATmega328_A8 p = p"
| "PIN_TO_DIGITAL ATmega2560 p = p"

fun PIN_TO_ANALOG :: "board \<Rightarrow> int \<Rightarrow> int" where
  "PIN_TO_ANALOG ATmega328_A6 p = p - 14"
| "PIN_TO_ANALOG ATmega328_A8 p = p - 14"
| "PIN_TO_ANALOG ATmega2560 p = p - 54"

fun PIN_TO_PWM :: "board \<Rightarrow> int \<Rightarrow> int" where
  "PIN_TO_PWM b p = PIN_TO_DIGITAL b p"

fun PIN_TO_SERVO :: "board \<Rightarrow> int \<Rightarrow> int" where
  "PIN_TO_SERVO ATmega328_A6 p = p - 2"
| "PIN_TO_SERVO ATmega328_A8 p = p - 2"
| "PIN_TO_SERVO ATmega2560 p = p - 2"

text \<open>
  \<open>ARDUINO_PINOUT_OPTIMIZE\<close> is defined, with the value 0, by both ATmega168/328P
  profiles and left undefined by the Mega profile. \<open>None\<close> is "not defined".
\<close>

fun ARDUINO_PINOUT_OPTIMIZE :: "board \<Rightarrow> int option" where
  "ARDUINO_PINOUT_OPTIMIZE ATmega328_A6 = Some 0"
| "ARDUINO_PINOUT_OPTIMIZE ATmega328_A8 = Some 0"
| "ARDUINO_PINOUT_OPTIMIZE ATmega2560 = None"

definition TOTAL_PORTS :: "board \<Rightarrow> int" where
  "TOTAL_PORTS b = (TOTAL_PINS b + 7) div 8"

section \<open>Platform primitives\<close>

text \<open>
  \<open>digitalRead\<close> and \<open>digitalWrite\<close> belong to the Arduino core, not to Boards.h.
  They are modelled on the state the specification observes: the logical level of
  every native pin. \<open>digitalWrite(p, v)\<close> drives pin \<open>p\<close> low when \<open>v\<close> is 0 (LOW)
  and high otherwise; \<open>digitalRead(p)\<close> returns 1 (HIGH) or 0 (LOW), the level of
  pin \<open>p\<close>. To make the calls of \<open>digitalRead\<close> observable, the state also records
  the native pin of every call, oldest first.

  Both primitives take the pin as \<open>uint8_t\<close>. Every pin number the port functions pass
  is \<open>pin + i\<close> with \<open>pin\<close> an \<open>unsigned char\<close> multiple of 8 and \<open>i \<le> 7\<close>, hence
  within 0..255, so the conversion is the identity and pins stay \<open>int\<close>.
\<close>

record hw =
  level :: "int \<Rightarrow> bool"
  reads :: "int list"

definition digitalRead :: "hw \<Rightarrow> int \<Rightarrow> int \<times> hw" where
  "digitalRead s p = ((if level s p then 1 else 0), s\<lparr>reads := reads s @ [p]\<rparr>)"

definition digitalWrite :: "hw \<Rightarrow> int \<Rightarrow> 8 word \<Rightarrow> hw" where
  "digitalWrite s p v = s\<lparr>level := (level s)(p := (v \<noteq> 0))\<rparr>"

section \<open>readPort\<close>

text \<open>
  One line of \<open>readPort\<close>:
  \<^verbatim>\<open>if (IS_PIN_DIGITAL(pin+k) && (bitmask & m) && digitalRead(PIN_TO_DIGITAL(pin+k))) out |= m;\<close>
  The operator \<open>&&\<close> evaluates its right operand only when the left one is true, so
  \<open>digitalRead\<close> is called only in the first branch below.
\<close>

definition readPort_line ::
  "board \<Rightarrow> int \<Rightarrow> 8 word \<Rightarrow> int \<times> 8 word \<Rightarrow> 8 word \<times> hw \<Rightarrow> 8 word \<times> hw" where
  "readPort_line b pin bitmask km os =
     (case km of (k, m) \<Rightarrow> case os of (out, s) \<Rightarrow>
        if IS_PIN_DIGITAL b (pin + k) \<and> bitmask AND m \<noteq> 0
        then (case digitalRead s (PIN_TO_DIGITAL b (pin + k)) of
                (v, s') \<Rightarrow> (if v \<noteq> 0 then out OR m else out, s'))
        else (out, s))"

text \<open>
  \<open>unsigned char out=0, pin=port*8;\<close> followed by the eight lines for
  \<open>pin+0\<close>, ..., \<open>pin+7\<close> with the masks \<open>0x01\<close>, ..., \<open>0x80\<close>. The product
  \<open>port*8\<close> is stored in an \<open>unsigned char\<close>, so it is taken modulo 256 (the word
  product); \<open>pin+k\<close> is then computed in \<open>int\<close>.
\<close>

definition readPort :: "board \<Rightarrow> 8 word \<Rightarrow> 8 word \<Rightarrow> hw \<Rightarrow> 8 word \<times> hw" where
  "readPort b port bitmask s =
     (let pin = uint (port * 8) in
      fold (readPort_line b pin bitmask)
        [(0, 0x01), (1, 0x02), (2, 0x04), (3, 0x08),
         (4, 0x10), (5, 0x20), (6, 0x40), (7, 0x80)]
        (0, s))"

section \<open>writePort\<close>

text \<open>
  The register branch of \<open>writePort\<close> assigns the AVR output registers \<open>PORTD\<close>,
  \<open>PORTB\<close> and \<open>PORTC\<close>. On the ATmega168/328 boards native pins 0..7 are bits
  0..7 of \<open>PORTD\<close>, pins 8..13 are bits 0..5 of \<open>PORTB\<close> and pins 14..19 are bits
  0..5 of \<open>PORTC\<close>; the branch is written for this layout (port 0 is \<open>PORTD\<close>,
  port 1 is \<open>PORTB\<close> bits 0..5 followed by \<open>PORTC\<close> bits 0..1, port 2 is \<open>PORTC\<close>
  bits 2..5). Reading a register collects the levels of its pins, assigning it drives
  them. Bits 6 and 7 of \<open>PORTB\<close> and \<open>PORTC\<close> carry no Arduino pin: they read as 0
  and assigning them changes no pin. \<open>cli()\<close> and \<open>sei()\<close> mask interrupts around
  each read-modify-write and have no effect on this sequential state.
\<close>

definition PORTD :: "hw \<Rightarrow> 8 word" where
  "PORTD s = horner_sum of_bool 2 (map (\<lambda>n. level s (int n)) [0..<8])"

definition PORTB :: "hw \<Rightarrow> 8 word" where
  "PORTB s = horner_sum of_bool 2 (map (\<lambda>n. level s (8 + int n)) [0..<6])"

definition PORTC :: "hw \<Rightarrow> 8 word" where
  "PORTC s = horner_sum of_bool 2 (map (\<lambda>n. level s (14 + int n)) [0..<6])"

definition set_PORTD :: "8 word \<Rightarrow> hw \<Rightarrow> hw" where
  "set_PORTD w s = s\<lparr>level := (\<lambda>p. if 0 \<le> p \<and> p < 8 then bit w (nat p) else level s p)\<rparr>"

definition set_PORTB :: "8 word \<Rightarrow> hw \<Rightarrow> hw" where
  "set_PORTB w s =
     s\<lparr>level := (\<lambda>p. if 8 \<le> p \<and> p < 14 then bit w (nat (p - 8)) else level s p)\<rparr>"

definition set_PORTC :: "8 word \<Rightarrow> hw \<Rightarrow> hw" where
  "set_PORTC w s =
     s\<lparr>level := (\<lambda>p. if 14 \<le> p \<and> p < 20 then bit w (nat (p - 14)) else level s p)\<rparr>"

text \<open>
  The branch under \<open>#if defined(ARDUINO_PINOUT_OPTIMIZE)\<close>. The operands are bytes;
  \<open>~\<close>, \<open><<\<close> and \<open>>>\<close> are computed in \<open>int\<close> and stored back into a byte,
  which is the 8-bit \<open>NOT\<close>, \<open>push_bit\<close> and \<open>drop_bit\<close>. No macro is consulted.
\<close>

definition writePort_registers :: "8 word \<Rightarrow> 8 word \<Rightarrow> 8 word \<Rightarrow> hw \<Rightarrow> hw" where
  "writePort_registers port value bitmask s =
     (if port = 0 then
        (let bitmask = bitmask AND 0xFC;
             valD = value AND bitmask;
             maskD = NOT bitmask
         in set_PORTD ((PORTD s AND maskD) OR valD) s)
      else if port = 1 then
        (let valB = (value AND bitmask) AND 0x3F;
             valC = drop_bit 6 (value AND bitmask);
             maskB = NOT (bitmask AND 0x3F);
             maskC = NOT (drop_bit 6 (bitmask AND 0xC0));
             s = set_PORTB ((PORTB s AND maskB) OR valB) s
         in set_PORTC ((PORTC s AND maskC) OR valC) s)
      else if port = 2 then
        (let bitmask = bitmask AND 0x0F;
             valC = push_bit 2 (value AND bitmask);
             maskC = NOT (push_bit 2 bitmask)
         in set_PORTC ((PORTC s AND maskC) OR valC) s)
      else s)"

text \<open>
  The branch under \<open>#else\<close>: \<open>byte pin=port*8;\<close> and the loop over \<open>i\<close> from 0
  to 7. Its body writes \<open>value & (1 << i)\<close> to pin \<open>pin+i\<close> when
  \<open>bitmask & (1 << i)\<close> is non-zero and the pin is digital.
\<close>

definition writePort_body :: "board \<Rightarrow> int \<Rightarrow> 8 word \<Rightarrow> 8 word \<Rightarrow> nat \<Rightarrow> hw \<Rightarrow> hw" where
  "writePort_body b pin value bitmask i s =
     (if bitmask AND push_bit i 1 \<noteq> 0 then
        (if IS_PIN_DIGITAL b (pin + int i)
         then digitalWrite s (PIN_TO_DIGITAL b (pin + int i)) (value AND push_bit i 1)
         else s)
      else s)"

function writePort_loop :: "board \<Rightarrow> int \<Rightarrow> 8 word \<Rightarrow> 8 word \<Rightarrow> nat \<Rightarrow> hw \<Rightarrow> hw" where
  "writePort_loop b pin value bitmask i s =
     (if i < 8
      then writePort_loop b pin value bitmask (i + 1) (writePort_body b pin value bitmask i s)
      else s)"
  by pat_completeness auto
termination
  by (relation "measure (\<lambda>(b, pin, value, bitmask, i, s). 8 - i)") auto

definition writePort_bitwise :: "board \<Rightarrow> 8 word \<Rightarrow> 8 word \<Rightarrow> 8 word \<Rightarrow> hw \<Rightarrow> hw" where
  "writePort_bitwise b port value bitmask s =
     (let pin = uint (port * 8) in writePort_loop b pin value bitmask 0 s)"

text \<open>
  \<open>writePort\<close> as the preprocessor compiles it for a board: the test is
  \<open>defined(ARDUINO_PINOUT_OPTIMIZE)\<close>, which holds whatever value the macro has.
  The C function is declared \<open>unsigned char\<close> but returns nothing; the model is its
  effect on the hardware state.
\<close>

definition writePort :: "board \<Rightarrow> 8 word \<Rightarrow> 8 word \<Rightarrow> 8 word \<Rightarrow> hw \<Rightarrow> hw" where
  "writePort b port value bitmask s =
     (if ARDUINO_PINOUT_OPTIMIZE b \<noteq> None
      then writePort_registers port value bitmask s
      else writePort_bitwise b port value bitmask s)"

declare writePort_loop.simps [simp del]

section \<open>Observations used in the statements\<close>

text \<open>
  The calls of \<open>digitalRead\<close> that one run of \<open>readPort\<close> makes: what the run
  appends to the record of calls.
\<close>

definition readPort_calls :: "board \<Rightarrow> 8 word \<Rightarrow> 8 word \<Rightarrow> hw \<Rightarrow> int list" where
  "readPort_calls b port bitmask s =
     drop (length (reads s)) (reads (snd (readPort b port bitmask s)))"

text \<open>A concrete hardware state: every pin low, no call recorded.\<close>

definition all_low :: hw where
  "all_low = \<lparr>level = (\<lambda>p. False), reads = []\<rparr>"

section \<open>Capability predicates and index translators\<close>

lemma analog_pins_ATmega328_A6:
  "{p. 0 \<le> p \<and> p < TOTAL_PINS ATmega328_A6 \<and> IS_PIN_ANALOG ATmega328_A6 p} = {14, 15}"
  by auto

lemma analog_pins_ATmega328_A8:
  "{p. 0 \<le> p \<and> p < TOTAL_PINS ATmega328_A8 \<and> IS_PIN_ANALOG ATmega328_A8 p} = {14 ..< 22}"
  by auto

lemma analog_pins_ATmega2560:
  "{p. 0 \<le> p \<and> p < TOTAL_PINS ATmega2560 \<and> IS_PIN_ANALOG ATmega2560 p} = {54 ..< 70}"
  by auto

lemma analog_count_ATmega328_A8:
  "int (card {p. 0 \<le> p \<and> p < TOTAL_PINS ATmega328_A8 \<and> IS_PIN_ANALOG ATmega328_A8 p})
     = TOTAL_ANALOG_PINS ATmega328_A8"
  unfolding analog_pins_ATmega328_A8 by simp

lemma analog_count_ATmega2560:
  "int (card {p. 0 \<le> p \<and> p < TOTAL_PINS ATmega2560 \<and> IS_PIN_ANALOG ATmega2560 p})
     = TOTAL_ANALOG_PINS ATmega2560"
  unfolding analog_pins_ATmega2560 by simp

text \<open>
  Claim C4. For every board profile the pins of \<open>[0, TOTAL_PINS)\<close> on which
  \<open>IS_PIN_ANALOG\<close> holds should number \<open>TOTAL_ANALOG_PINS\<close>. On the ATmega168/328P
  profile with six analog inputs, \<open>TOTAL_PINS\<close> is 16 although the line's own comment
  counts 14 digital and 6 analog pins: the analog range 14..19 is cut at 16, so only
  pins 14 and 15 remain, two instead of six. The other two profiles (lemmas
  \<open>analog_count_ATmega328_A8\<close>, \<open>analog_count_ATmega2560\<close>) have the full count.
\<close>

theorem analog_count_ATmega328_A6:
  "card {p. 0 \<le> p \<and> p < TOTAL_PINS ATmega328_A6 \<and> IS_PIN_ANALOG ATmega328_A6 p} = 2
   \<and> TOTAL_ANALOG_PINS ATmega328_A6 = 6
   \<and> IS_PIN_ANALOG ATmega328_A6 19 \<and> \<not> 19 < TOTAL_PINS ATmega328_A6"
  unfolding analog_pins_ATmega328_A6 by simp

text \<open>
  Claim C5. On every board profile, for every value of \<open>MAX_SERVOS\<close> and every pin
  index in \<open>[0, TOTAL_PINS)\<close>, a servo-capable pin is digital-capable.
\<close>

theorem servo_implies_digital:
  assumes "0 \<le> p" and "p < TOTAL_PINS b" and "IS_PIN_SERVO b ms p"
  shows "IS_PIN_DIGITAL b p"
  using assms by (cases b) simp_all

theorem servo_implies_digital_witness:
  "(0::int) \<le> 5 \<and> 5 < TOTAL_PINS ATmega2560 \<and> IS_PIN_SERVO ATmega2560 12 5
   \<and> IS_PIN_DIGITAL ATmega2560 5"
  using servo_implies_digital [of 5 ATmega2560 12] by simp

text \<open>
  Claim C6, as stated: \<open>PIN_TO_SERVO\<close> subtracts the smallest servo-capable pin index,
  so the first servo-capable pin has slot 0. On the ATmega168/328P profiles pin 2 is
  not digital, hence never servo-capable; pin 3 is the smallest servo-capable pin, and
  its slot is 1, not 0.
\<close>

theorem PIN_TO_SERVO_first_slot_counterexample:
  "IS_PIN_SERVO ATmega328_A8 12 3
   \<and> \<not> (\<exists>ms q. IS_PIN_SERVO ATmega328_A8 ms q \<and> q < 3)
   \<and> PIN_TO_SERVO ATmega328_A8 3 = 1
   \<and> PIN_TO_SERVO ATmega328_A8 3 \<noteq> 3 - 3"
  by auto

text \<open>
  Claim C6, amended. On every profile \<open>PIN_TO_SERVO\<close> subtracts the constant 2 from a
  servo-capable pin. On the Mega profile 2 is the smallest pin that can be
  servo-capable, so the first servo-capable pin has slot 0; on the ATmega168/328P
  profiles the smallest such pin is 3 and its slot is 1.
\<close>

theorem PIN_TO_SERVO_offset:
  assumes "IS_PIN_SERVO b ms p"
  shows "PIN_TO_SERVO b p = p - 2
         \<and> (if b = ATmega2560
            then 2 \<le> p \<and> IS_PIN_SERVO b 1 2 \<and> PIN_TO_SERVO b 2 = 0
            else 3 \<le> p \<and> IS_PIN_SERVO b 2 3 \<and> PIN_TO_SERVO b 3 = 1)"
  using assms by (cases b) auto

theorem PIN_TO_SERVO_offset_witness:
  "IS_PIN_SERVO ATmega328_A6 12 5 \<and> PIN_TO_SERVO ATmega328_A6 5 = 3
   \<and> IS_PIN_SERVO ATmega328_A6 2 3 \<and> PIN_TO_SERVO ATmega328_A6 3 = 1"
  using PIN_TO_SERVO_offset [of ATmega328_A6 12 5] by simp

text \<open>
  Claim C7. On a pin where \<open>IS_PIN_ANALOG\<close> holds, \<open>PIN_TO_ANALOG\<close> is the pin minus
  the first analog-capable pin \<open>f\<close> of the board (the least pin on which
  \<open>IS_PIN_ANALOG\<close> holds), a channel number in \<open>[0, TOTAL_ANALOG_PINS)\<close>; and
  \<open>PIN_TO_DIGITAL\<close> is the identity on every digital-capable pin.
\<close>

theorem PIN_TO_ANALOG_zero_based:
  "(IS_PIN_ANALOG b p \<longrightarrow>
      (\<exists>f. IS_PIN_ANALOG b f \<and> \<not> (\<exists>q. IS_PIN_ANALOG b q \<and> q < f)
           \<and> PIN_TO_ANALOG b p = p - f)
      \<and> 0 \<le> PIN_TO_ANALOG b p \<and> PIN_TO_ANALOG b p < TOTAL_ANALOG_PINS b)
   \<and> (IS_PIN_DIGITAL b d \<longrightarrow> PIN_TO_DIGITAL b d = d)"
proof (cases b)
  case ATmega328_A6
  have "IS_PIN_ANALOG b 14 \<and> \<not> (\<exists>q. IS_PIN_ANALOG b q \<and> q < 14)"
    using ATmega328_A6 by simp
  then show ?thesis using ATmega328_A6 by auto
next
  case ATmega328_A8
  have "IS_PIN_ANALOG b 14 \<and> \<not> (\<exists>q. IS_PIN_ANALOG b q \<and> q < 14)"
    using ATmega328_A8 by simp
  then show ?thesis using ATmega328_A8 by auto
next
  case ATmega2560
  have "IS_PIN_ANALOG b 54 \<and> \<not> (\<exists>q. IS_PIN_ANALOG b q \<and> q < 54)"
    using ATmega2560 by simp
  then show ?thesis using ATmega2560 by auto
qed

theorem PIN_TO_ANALOG_zero_based_witness:
  "IS_PIN_ANALOG ATmega2560 60 \<and> PIN_TO_ANALOG ATmega2560 60 = 6
   \<and> (0::int) \<le> 6 \<and> 6 < TOTAL_ANALOG_PINS ATmega2560
   \<and> IS_PIN_DIGITAL ATmega2560 7 \<and> PIN_TO_DIGITAL ATmega2560 7 = 7"
  using PIN_TO_ANALOG_zero_based [of ATmega2560 60 7] by simp

section \<open>Facts about the primitives and the registers\<close>

lemma PIN_TO_DIGITAL_id: "PIN_TO_DIGITAL b q = q"
  by (cases b) simp_all

lemma and_pow_eq0: "(w :: 8 word) AND 2 ^ k = 0 \<longleftrightarrow> \<not> bit w k"
  by (simp add: and_exp_eq_0_iff_not_bit)

lemma bit8_high: "8 \<le> n \<Longrightarrow> \<not> bit (w :: 8 word) n"
  by (auto dest: bit_imp_le_length)

lemma uint_port_times_8: "port < 32 \<Longrightarrow> uint (port * 8 :: 8 word) = uint port * 8"
proof -
  assume "port < 32"
  then have "uint port < 32" by (simp add: word_less_def)
  then show ?thesis by (simp add: uint_word_ariths)
qed

lemma hw_eqI: "level s = level t \<Longrightarrow> reads s = reads t \<Longrightarrow> s = t" for s t :: hw
  by (rule hw.equality) simp_all

section \<open>readPort, line by line\<close>

lemma readPort_lines:
  "[(0, 0x01), (1, 0x02), (2, 0x04), (3, 0x08), (4, 0x10), (5, 0x20), (6, 0x40), (7, 0x80)]
   = map (\<lambda>k. (int k, (2::8 word) ^ k)) [0..<8]"
  by (simp add: upt_conv_Cons)

lemma readPort_line_result:
  assumes "readPort_line b pin bitmask (int k, 2 ^ k) (out, s) = (o1, s1)"
  shows "bit o1 i \<longleftrightarrow> bit out i \<or>
           (i = k \<and> i < 8 \<and> bit bitmask i \<and> IS_PIN_DIGITAL b (pin + int i) \<and> level s (pin + int i))"
    and "level s1 = level s"
    and "reads s1 = reads s @
           (if IS_PIN_DIGITAL b (pin + int k) \<and> bit bitmask k then [pin + int k] else [])"
  using assms
  by (auto simp: readPort_line_def digitalRead_def PIN_TO_DIGITAL_id and_pow_eq0
        bit_or_iff bit_exp_iff split: if_splits dest: bit_imp_le_length)

lemma fold_readPort_line:
  assumes "fold (readPort_line b pin bitmask) (map (\<lambda>k. (int k, 2 ^ k)) ks) (out, s) = (out', s')"
  shows "(bit out' i \<longleftrightarrow> bit out i \<or>
            (i \<in> set ks \<and> i < 8 \<and> bit bitmask i \<and> IS_PIN_DIGITAL b (pin + int i)
               \<and> level s (pin + int i)))
         \<and> level s' = level s
         \<and> reads s' = reads s @ map (\<lambda>k. pin + int k)
              (filter (\<lambda>k. IS_PIN_DIGITAL b (pin + int k) \<and> bit bitmask k) ks)"
  using assms
proof (induction ks arbitrary: out s)
  case Nil
  then show ?case by auto
next
  case (Cons k ks)
  obtain o1 s1 where st: "readPort_line b pin bitmask (int k, 2 ^ k) (out, s) = (o1, s1)"
    by (cases "readPort_line b pin bitmask (int k, 2 ^ k) (out, s)")
  note r = readPort_line_result [OF st]
  from Cons.prems st
  have "fold (readPort_line b pin bitmask) (map (\<lambda>k. (int k, 2 ^ k)) ks) (o1, s1) = (out', s')"
    by simp
  from Cons.IH [OF this] r(1) [of i] r(2) r(3) show ?case by auto
qed

lemma readPort_result:
  "(bit (fst (readPort b port bitmask s)) i \<longleftrightarrow>
      i < 8 \<and> bit bitmask i \<and> IS_PIN_DIGITAL b (uint (port * 8) + int i)
        \<and> level s (uint (port * 8) + int i))
   \<and> level (snd (readPort b port bitmask s)) = level s
   \<and> reads (snd (readPort b port bitmask s)) = reads s @ map (\<lambda>k. uint (port * 8) + int k)
        (filter (\<lambda>k. IS_PIN_DIGITAL b (uint (port * 8) + int k) \<and> bit bitmask k) [0..<8])"
proof -
  obtain out' s' where r: "readPort b port bitmask s = (out', s')"
    by (cases "readPort b port bitmask s")
  then have "fold (readPort_line b (uint (port * 8)) bitmask)
      (map (\<lambda>k. (int k, 2 ^ k)) [0..<8]) (0, s) = (out', s')"
    unfolding readPort_def Let_def readPort_lines by simp
  from fold_readPort_line [OF this, of i] show ?thesis
    by (simp add: r)
qed

section \<open>The register branch, pin by pin\<close>

lemma bit_PORTD: "bit (PORTD s) n \<longleftrightarrow> n < 8 \<and> level s (int n)"
  by (auto simp: PORTD_def bit_horner_sum_bit_word_iff)

lemma bit_PORTB: "bit (PORTB s) n \<longleftrightarrow> n < 6 \<and> level s (8 + int n)"
  by (auto simp: PORTB_def bit_horner_sum_bit_word_iff)

lemma bit_PORTC: "bit (PORTC s) n \<longleftrightarrow> n < 6 \<and> level s (14 + int n)"
  by (auto simp: PORTC_def bit_horner_sum_bit_word_iff)

lemma level_set_PORT:
  "level (set_PORTD w s) p = (if 0 \<le> p \<and> p < 8 then bit w (nat p) else level s p)"
  "level (set_PORTB w s) p = (if 8 \<le> p \<and> p < 14 then bit w (nat (p - 8)) else level s p)"
  "level (set_PORTC w s) p = (if 14 \<le> p \<and> p < 20 then bit w (nat (p - 14)) else level s p)"
  by (simp_all add: set_PORTD_def set_PORTB_def set_PORTC_def)

lemma pin_cases:
  "(p::int) < 0 \<or> 20 \<le> p \<or>
   p \<in> {0, 1, 2, 3, 4, 5, 6, 7, 8, 9, 10, 11, 12, 13, 14, 15, 16, 17, 18, 19}"
  by (simp only: insert_iff empty_iff) presburger

lemma level_writePort_registers_0:
  "level (writePort_registers 0 value bitmask s) p =
     (if 2 \<le> p \<and> p \<le> 19 \<and> 0 = p div 8 \<and> bit bitmask (nat (p mod 8))
      then bit value (nat (p mod 8)) else level s p)"
  using pin_cases [of p]
  unfolding writePort_registers_def Let_def
  by (elim disjE insertE emptyE)
     (simp_all add: level_set_PORT bit_and_iff bit_or_iff bit_not_iff bit_PORTD)

lemma level_writePort_registers_1:
  "level (writePort_registers 1 value bitmask s) p =
     (if 2 \<le> p \<and> p \<le> 19 \<and> 1 = p div 8 \<and> bit bitmask (nat (p mod 8))
      then bit value (nat (p mod 8)) else level s p)"
  using pin_cases [of p]
  unfolding writePort_registers_def Let_def
  by (elim disjE insertE emptyE)
     (simp_all add: level_set_PORT bit_and_iff bit_or_iff bit_not_iff bit_drop_bit_eq
        bit_PORTB bit_PORTC bit8_high)

lemma level_writePort_registers_2:
  "level (writePort_registers 2 value bitmask s) p =
     (if 2 \<le> p \<and> p \<le> 19 \<and> 2 = p div 8 \<and> bit bitmask (nat (p mod 8))
      then bit value (nat (p mod 8)) else level s p)"
  using pin_cases [of p]
  unfolding writePort_registers_def Let_def
  by (elim disjE insertE emptyE)
     (simp_all add: level_set_PORT bit_and_iff bit_or_iff bit_not_iff bit_push_bit_iff bit_PORTC)

lemma writePort_registers_other:
  "port \<noteq> 0 \<Longrightarrow> port \<noteq> 1 \<Longrightarrow> port \<noteq> 2 \<Longrightarrow> writePort_registers port value bitmask s = s"
  by (simp add: writePort_registers_def)

lemma uint_port_012:
  "uint (port :: 8 word) = 0 \<longleftrightarrow> port = 0"
  "uint port = 1 \<longleftrightarrow> port = 1"
  "uint port = 2 \<longleftrightarrow> port = 2"
  by (simp_all add: word_uint_eq_iff)

text \<open>
  The register branch drives exactly the native pins 2..19 that belong to the port and
  whose mask bit is set, whatever \<open>IS_PIN_DIGITAL\<close> says about them.
\<close>

lemma level_writePort_registers:
  "level (writePort_registers port value bitmask s) p =
     (if 2 \<le> p \<and> p \<le> 19 \<and> uint port = p div 8 \<and> bit bitmask (nat (p mod 8))
      then bit value (nat (p mod 8)) else level s p)"
proof -
  consider "port = 0" | "port = 1" | "port = 2" | "port \<noteq> 0" "port \<noteq> 1" "port \<noteq> 2"
    by blast
  then show ?thesis
  proof cases
    case 1
    then show ?thesis using level_writePort_registers_0 [of "value" bitmask s p] by simp
  next
    case 2
    then show ?thesis using level_writePort_registers_1 [of "value" bitmask s p] by simp
  next
    case 3
    then show ?thesis using level_writePort_registers_2 [of "value" bitmask s p] by simp
  next
    case 4
    have "p div 8 = 0 \<or> p div 8 = 1 \<or> p div 8 = 2" if "2 \<le> p" "p \<le> 19"
      using that by presburger
    with 4 show ?thesis
      by (auto simp: writePort_registers_other uint_port_012)
  qed
qed

lemma reads_writePort_registers:
  "reads (writePort_registers port value bitmask s) = reads s"
  by (simp add: writePort_registers_def Let_def set_PORTD_def set_PORTB_def set_PORTC_def)

section \<open>The bit-by-bit branch, pin by pin\<close>

lemma level_writePort_body:
  "level (writePort_body b pin v m i s) q =
     (if q = pin + int i \<and> bit m i \<and> IS_PIN_DIGITAL b q then bit v i else level s q)"
  by (auto simp: writePort_body_def digitalWrite_def PIN_TO_DIGITAL_id and_pow_eq0)

lemma reads_writePort_body: "reads (writePort_body b pin v m i s) = reads s"
  by (simp add: writePort_body_def digitalWrite_def)

lemma ex_from_split:
  "(\<exists>k. i \<le> k \<and> P k) \<longleftrightarrow> P i \<or> (\<exists>k. Suc i \<le> k \<and> P k)" for i :: nat
  by (metis Suc_leI le_neq_implies_less order_refl Suc_leD)

lemma writePort_loop_unfold:
  "i < 8 \<Longrightarrow> writePort_loop b pin v m i s =
     writePort_loop b pin v m (i + 1) (writePort_body b pin v m i s)"
  by (subst writePort_loop.simps) simp

lemma writePort_loop_done: "\<not> i < 8 \<Longrightarrow> writePort_loop b pin v m i s = s"
  by (subst writePort_loop.simps) simp

lemma level_writePort_loop:
  "level (writePort_loop b pin v m i s) q =
     (if \<exists>k. i \<le> k \<and> (k < 8 \<and> q = pin + int k \<and> bit m k \<and> IS_PIN_DIGITAL b q)
      then bit v (nat (q - pin)) else level s q)"
proof (induction b pin v m i s rule: writePort_loop.induct)
  case (1 b pin v m i s)
  show ?case
  proof (cases "i < 8")
    case False
    then show ?thesis by (auto simp: writePort_loop_done)
  next
    case True
    note IH = "1.IH" [OF True]
    show ?thesis
      apply (subst writePort_loop_unfold [OF True])
      apply (subst IH)
      apply (subst ex_from_split [of i])
      apply (auto simp: level_writePort_body True)
      done
  qed
qed

lemma reads_writePort_loop: "reads (writePort_loop b pin v m i s) = reads s"
proof (induction b pin v m i s rule: writePort_loop.induct)
  case (1 b pin v m i s)
  show ?case
  proof (cases "i < 8")
    case False
    then show ?thesis by (simp add: writePort_loop_done)
  next
    case True
    show ?thesis
      using "1.IH" [OF True] by (simp only: writePort_loop_unfold [OF True] reads_writePort_body)
  qed
qed

lemma level_writePort_bitwise:
  "level (writePort_bitwise b port v m s) q =
     (if \<exists>k. k < 8 \<and> q = uint (port * 8) + int k \<and> bit m k \<and> IS_PIN_DIGITAL b q
      then bit v (nat (q - uint (port * 8))) else level s q)"
  by (simp add: writePort_bitwise_def level_writePort_loop)

lemma reads_writePort_bitwise: "reads (writePort_bitwise b port v m s) = reads s"
  by (simp add: writePort_bitwise_def reads_writePort_loop)

lemma reads_writePort: "reads (writePort b port v m s) = reads s"
  by (simp add: writePort_def reads_writePort_bitwise reads_writePort_registers)

section \<open>Properties of readPort\<close>

lemma uint_port_times_8_mod: "uint (port * 8 :: 8 word) = int (unat port * 8 mod 256)"
  by (simp add: uint_word_ariths zmod_int)

lemma pin_base_no_wrap: "port < 32 \<Longrightarrow> int (unat port * 8 mod 256) = int (unat port) * 8"
  for port :: "8 word"
  using uint_port_times_8 [of port] by (simp add: uint_port_times_8_mod)

text \<open>
  A port is valid when it lies in \<open>[0, TOTAL_PORTS)\<close>; larger ports are outside the
  callers' contract. \<open>TOTAL_PORTS\<close> is 2, 3 and 9 on the three profiles, so the
  product \<open>port*8\<close> of a valid port fits the \<open>unsigned char\<close> it is stored in.
\<close>

lemma valid_port_below_32: "uint port < TOTAL_PORTS b \<Longrightarrow> port < 32" for port :: "8 word"
  by (cases b) (simp_all add: TOTAL_PORTS_def word_less_def)

lemma valid_port_pin_base:
  "uint port < TOTAL_PORTS b \<Longrightarrow> uint (port * 8 :: 8 word) = uint port * 8"
  by (rule uint_port_times_8) (rule valid_port_below_32)

text \<open>
  For any byte passed as port, the pin that line \<open>i\<close> of \<open>readPort\<close> tests and reads
  is \<open>(port*8 mod 256)+i\<close>.
\<close>

lemma readPort_bits_any_port:
  "bit (fst (readPort b port bitmask s)) i \<longleftrightarrow>
     i < 8 \<and> bit bitmask i
     \<and> IS_PIN_DIGITAL b (int (unat port * 8 mod 256) + int i)
     \<and> fst (digitalRead s (PIN_TO_DIGITAL b (int (unat port * 8 mod 256) + int i))) \<noteq> 0"
  by (simp add: readPort_result [of b port bitmask s i] uint_port_times_8_mod
        digitalRead_def PIN_TO_DIGITAL_id)

text \<open>
  Claim C3. For every port of the board and every bitmask, bit \<open>i\<close> of the byte that
  \<open>readPort(port, bitmask)\<close> returns is 1 exactly when \<open>i\<close> is in 0..7, bit \<open>i\<close> of
  the bitmask is set, pin \<open>port*8+i\<close> is digital-capable and the digital read of that
  pin's native index is high; in every other case the bit is 0. \<open>readPort\<close> is a total
  function that returns a byte: no error is signalled.
\<close>

theorem readPort_bits:
  assumes "uint port < TOTAL_PORTS b"
  shows "bit (fst (readPort b port bitmask s)) i \<longleftrightarrow>
     i < 8 \<and> bit bitmask i
     \<and> IS_PIN_DIGITAL b (uint port * 8 + int i)
     \<and> fst (digitalRead s (PIN_TO_DIGITAL b (uint port * 8 + int i))) \<noteq> 0"
  by (simp add: readPort_result [of b port bitmask s i] valid_port_pin_base [OF assms]
        digitalRead_def PIN_TO_DIGITAL_id)

theorem readPort_bits_witness:
  "uint (1 :: 8 word) < TOTAL_PORTS ATmega328_A8
   \<and> IS_PIN_DIGITAL ATmega328_A8 (uint (1 :: 8 word) * 8 + int 6)
   \<and> \<not> IS_PIN_DIGITAL ATmega328_A8 (uint (1 :: 8 word) * 8 + int 5)
   \<and> bit (fst (readPort ATmega328_A8 1 0xFF
        (digitalWrite (digitalWrite all_low 14 1) 13 1))) 6
   \<and> \<not> bit (fst (readPort ATmega328_A8 1 0xFF
        (digitalWrite (digitalWrite all_low 14 1) 13 1))) 5
   \<and> \<not> bit (fst (readPort ATmega328_A8 1 0xBF
        (digitalWrite (digitalWrite all_low 14 1) 13 1))) 6"
  using readPort_bits [of 1 ATmega328_A8 "0xFF" "digitalWrite (digitalWrite all_low 14 1) 13 1" 6]
    readPort_bits [of 1 ATmega328_A8 "0xFF" "digitalWrite (digitalWrite all_low 14 1) 13 1" 5]
    readPort_bits [of 1 ATmega328_A8 "0xBF" "digitalWrite (digitalWrite all_low 14 1) 13 1" 6]
  by (simp add: TOTAL_PORTS_def digitalRead_def digitalWrite_def all_low_def)

lemma same_port_pin:
  assumes "x * 8 + int i = (x * 8) mod 256 + int k" and "i < 8" and "k < 8"
  shows "i = k"
proof -
  have "8 dvd (x * 8) mod 256"
    by (rule dvd_mod) simp_all
  then obtain y where "(x * 8) mod 256 = 8 * y" ..
  with assms(1) have "x * 8 + int i = 8 * y + int k" by simp
  then have "(x * 8 + int i) mod 8 = (8 * y + int k) mod 8" by (rule arg_cong)
  with assms(2,3) show ?thesis by simp
qed

text \<open>
  Claim C10. The calls of \<open>digitalRead\<close> that \<open>readPort\<close> makes are, in order, those
  for the pins \<open>pin+k\<close> (\<open>k\<close> from 0 to 7) that are digital-capable and whose mask
  bit is set, and no others: every pin read is digital-capable, and pin \<open>port*8+i\<close>
  is read only if it is digital-capable and bit \<open>i\<close> of the mask is set.
\<close>

theorem readPort_calls_selected:
  "reads (snd (readPort b port bitmask s)) = reads s @ readPort_calls b port bitmask s
   \<and> readPort_calls b port bitmask s =
       map (\<lambda>k. uint (port * 8) + int k)
         (filter (\<lambda>k. IS_PIN_DIGITAL b (uint (port * 8) + int k) \<and> bit bitmask k) [0..<8])
   \<and> (\<forall>q \<in> set (readPort_calls b port bitmask s). IS_PIN_DIGITAL b q)
   \<and> (\<forall>i<8. int (unat port) * 8 + int i \<in> set (readPort_calls b port bitmask s) \<longrightarrow>
         IS_PIN_DIGITAL b (int (unat port) * 8 + int i) \<and> bit bitmask i)"
proof -
  have calls: "readPort_calls b port bitmask s =
       map (\<lambda>k. uint (port * 8) + int k)
         (filter (\<lambda>k. IS_PIN_DIGITAL b (uint (port * 8) + int k) \<and> bit bitmask k) [0..<8])"
    by (simp add: readPort_calls_def readPort_result)
  have app: "reads (snd (readPort b port bitmask s)) = reads s @ readPort_calls b port bitmask s"
    by (simp add: calls readPort_result)
  have dig: "\<forall>q \<in> set (readPort_calls b port bitmask s). IS_PIN_DIGITAL b q"
    by (auto simp: calls)
  have sel: "IS_PIN_DIGITAL b (int (unat port) * 8 + int i) \<and> bit bitmask i"
    if "i < 8" and "int (unat port) * 8 + int i \<in> set (readPort_calls b port bitmask s)" for i
  proof -
    from that(2) obtain k where k: "k < 8" "bit bitmask k"
      "int (unat port) * 8 + int i = uint (port * 8) + int k"
      "IS_PIN_DIGITAL b (uint (port * 8) + int k)"
      by (auto simp: calls)
    have "uint (port * 8) = (int (unat port) * 8) mod 256"
      by (simp add: uint_word_ariths)
    with k(3) have "i = k"
      using same_port_pin [of "int (unat port)" i k] that(1) k(1) by simp
    with k show ?thesis by simp
  qed
  from calls app dig sel show ?thesis by blast
qed

theorem readPort_calls_selected_witness:
  "readPort_calls ATmega328_A8 0 0x0F all_low = [3]
   \<and> IS_PIN_DIGITAL ATmega328_A8 3 \<and> bit (0x0F :: 8 word) 3
   \<and> \<not> IS_PIN_DIGITAL ATmega328_A8 2 \<and> bit (0x0F :: 8 word) 2"
  using readPort_calls_selected [of ATmega328_A8 0 "0x0F" all_low]
  by (simp add: upt_conv_Cons)

section \<open>Properties of writePort\<close>

text \<open>
  The bit-by-bit branch changes a pin only if its mask bit is set and it is
  digital-capable, and on every board a zero mask changes nothing.
\<close>

lemma writePort_bitwise_frame:
  assumes "level (writePort_bitwise b port v m s) q \<noteq> level s q"
  shows "\<exists>k<8. q = uint (port * 8) + int k \<and> bit m k \<and> IS_PIN_DIGITAL b q"
  using assms by (auto simp: level_writePort_bitwise split: if_splits)

lemma writePort_mask_zero: "writePort b port v 0 s = s"
  by (rule hw_eqI)
     (auto simp: fun_eq_iff writePort_def level_writePort_bitwise level_writePort_registers
        reads_writePort_bitwise reads_writePort_registers)

text \<open>
  Claim C1. \<open>writePort\<close> should change a pin only if its mask bit is set and the pin
  is digital-capable. The ATmega168/328P profiles define \<open>ARDUINO_PINOUT_OPTIMIZE\<close>
  (as 0), so the register branch is compiled; it never consults \<open>IS_PIN_DIGITAL\<close>.
  From the all-low state, \<open>writePort(0, 0x04, 0x04)\<close> drives native pin 2 high and
  \<open>writePort(1, 0x20, 0x20)\<close> drives native pin 13 high; neither pin is
  digital-capable on these profiles (both are kept for the BTLE link).
\<close>

theorem writePort_drives_non_digital_pin:
  "\<not> IS_PIN_DIGITAL ATmega328_A8 2 \<and> \<not> level all_low 2
   \<and> level (writePort ATmega328_A8 0 0x04 0x04 all_low) 2
   \<and> \<not> IS_PIN_DIGITAL ATmega328_A8 13 \<and> \<not> level all_low 13
   \<and> level (writePort ATmega328_A8 1 0x20 0x20 all_low) 13"
  by (simp add: writePort_def level_writePort_registers all_low_def)

text \<open>
  On an ATmega168/328P profile and a port below 32, the two branches of \<open>writePort\<close>
  agree whenever every selected pin among the native pins 2..19 is digital-capable:
  they can differ only on pin 2 and pins 9..13.
\<close>

lemma writePort_registers_eq_bitwise:
  assumes b: "b \<noteq> ATmega2560" and p: "port < 32"
    and ok: "\<And>k. k < 8 \<Longrightarrow> bit m k \<Longrightarrow> 2 \<le> uint port * 8 + int k \<Longrightarrow>
               uint port * 8 + int k \<le> 19 \<Longrightarrow> IS_PIN_DIGITAL b (uint port * 8 + int k)"
  shows "writePort_registers port v m s = writePort_bitwise b port v m s"
proof (rule hw_eqI)
  show "reads (writePort_registers port v m s) = reads (writePort_bitwise b port v m s)"
    by (simp add: reads_writePort_registers reads_writePort_bitwise)
  have pin: "uint (port * 8) = uint port * 8"
    by (rule uint_port_times_8 [OF p])
  have dig: "2 \<le> q \<and> q \<le> 19" if "IS_PIN_DIGITAL b q" for q
    using that b by (cases b) auto
  have "level (writePort_registers port v m s) q = level (writePort_bitwise b port v m s) q" for q
  proof (cases "2 \<le> q \<and> q \<le> 19 \<and> uint port = q div 8 \<and> bit m (nat (q mod 8))")
    case True
    define k where "k = nat (q mod 8)"
    have qm: "0 \<le> q mod 8" "q mod 8 < 8" by simp_all
    from True have up: "uint port = q div 8" by blast
    have k1: "k < 8" using qm unfolding k_def by linarith
    have k2: "q = uint port * 8 + int k"
      unfolding up k_def using qm by simp
    from True have k3: "bit m k" unfolding k_def by blast
    from True have "2 \<le> q" "q \<le> 19" by blast+
    with ok [OF k1 k3] have d: "IS_PIN_DIGITAL b q"
      unfolding k2 [symmetric] by blast
    have "\<exists>k<8. q = uint port * 8 + int k \<and> bit m k \<and> IS_PIN_DIGITAL b q"
      using k1 k2 k3 d by blast
    moreover have "nat (q - uint port * 8) = k"
      using k2 by simp
    ultimately show ?thesis
      unfolding level_writePort_registers level_writePort_bitwise pin
      using True by (simp add: k_def)
  next
    case False
    have nb: "\<not> (\<exists>k<8. q = uint port * 8 + int k \<and> bit m k \<and> IS_PIN_DIGITAL b q)"
    proof
      assume "\<exists>k<8. q = uint port * 8 + int k \<and> bit m k \<and> IS_PIN_DIGITAL b q"
      then obtain k where k: "k < 8" "q = uint port * 8 + int k" "bit m k" "IS_PIN_DIGITAL b q"
        by blast
      from k(1,2) have "q div 8 = uint port" "q mod 8 = int k" by simp_all
      with k dig [OF k(4)] False show False by simp
    qed
    have "level (writePort_registers port v m s) q = level s q"
      by (subst level_writePort_registers) (simp only: False if_False)
    moreover have "level (writePort_bitwise b port v m s) q = level s q"
      by (subst level_writePort_bitwise) (simp only: pin nb if_False)
    ultimately show ?thesis by simp
  qed
  then show "level (writePort_registers port v m s) = level (writePort_bitwise b port v m s)"
    by (rule ext)
qed

text \<open>
  Claim C2. The register branch should leave the same pins at the same levels as the
  bit-by-bit branch and never write a pin reserved for the link. On an ATmega168/328P
  profile the two differ: for \<open>(0, 0x04, 0x04)\<close> the register branch sets pin 2 and
  the bit-by-bit branch does not; for \<open>(1, 0x3E, 0x3E)\<close> the register branch sets
  pin 13 (with pins 9..12) and the bit-by-bit branch does not.
\<close>

theorem writePort_registers_differs_from_bitwise:
  "level (writePort_registers 0 0x04 0x04 all_low) 2
   \<and> \<not> level (writePort_bitwise ATmega328_A8 0 0x04 0x04 all_low) 2
   \<and> level (writePort_registers 1 0x3E 0x3E all_low) 13
   \<and> \<not> level (writePort_bitwise ATmega328_A8 1 0x3E 0x3E all_low) 13"
  by (simp add: level_writePort_registers level_writePort_bitwise all_low_def)

lemma writePort_idem: "writePort b port v m (writePort b port v m s) = writePort b port v m s"
  by (rule hw_eqI)
     (auto simp: fun_eq_iff writePort_def level_writePort_bitwise level_writePort_registers
        reads_writePort_bitwise reads_writePort_registers)

lemma level_writePort_selected:
  assumes "port < 32" and "i < 8" and "bit m i"
    and "IS_PIN_DIGITAL b (int (unat port) * 8 + int i)"
  shows "level (writePort b port v m s) (int (unat port) * 8 + int i) = bit v i"
proof (cases "ARDUINO_PINOUT_OPTIMIZE b = None")
  case True
  have "uint (port * 8) = int (unat port) * 8"
    using uint_port_times_8 [OF assms(1)] by simp
  with True assms show ?thesis
    by (auto simp: writePort_def level_writePort_bitwise)
next
  case False
  then have b: "b \<noteq> ATmega2560" by auto
  let ?q = "int (unat port) * 8 + int i"
  have "?q div 8 = int (unat port)" "?q mod 8 = int i"
    using assms(2) by simp_all
  moreover have "2 \<le> ?q \<and> ?q \<le> 19"
    using assms(4) b by (cases b) auto
  ultimately show ?thesis
    using False assms by (simp add: writePort_def level_writePort_registers)
qed

lemma writePort_then_readPort_below_32:
  assumes p: "port < 32"
  shows "bit (fst (readPort b port bitmask (writePort b port value bitmask s))) i \<longleftrightarrow>
        i < 8 \<and> bit value i \<and> bit bitmask i
        \<and> IS_PIN_DIGITAL b (int (unat port) * 8 + int i)"
proof -
  have pin: "uint (port * 8) = int (unat port) * 8"
    using uint_port_times_8 [OF p] by simp
  show ?thesis
    unfolding readPort_result [THEN conjunct1] pin
    using level_writePort_selected [OF p, of i bitmask b "value" s] by auto
qed

text \<open>
  Claim C8. For every port of the board, every value and every mask,
  \<open>readPort(port, mask)\<close> after \<open>writePort(port, value, mask)\<close> returns
  \<open>value & mask\<close> restricted to the digital-capable pins of the port: bit \<open>i\<close> of
  the result is set exactly when bits \<open>i\<close> of value and mask are set and pin
  \<open>port*8+i\<close> is digital-capable, so the bit of a non-digital pin is 0 whatever was
  written. Calling \<open>writePort\<close> twice with the same arguments leaves the same pin
  state as calling it once.
\<close>

theorem writePort_then_readPort:
  assumes "uint port < TOTAL_PORTS b"
  shows "(\<forall>i. bit (fst (readPort b port bitmask (writePort b port value bitmask s))) i \<longleftrightarrow>
            i < 8 \<and> bit (value AND bitmask) i \<and> IS_PIN_DIGITAL b (uint port * 8 + int i))
         \<and> writePort b port value bitmask (writePort b port value bitmask s)
             = writePort b port value bitmask s"
  using writePort_then_readPort_below_32 [OF valid_port_below_32 [OF assms], of b bitmask "value" s]
  by (auto simp: writePort_idem bit_and_iff)

theorem writePort_then_readPort_witness:
  "uint (0 :: 8 word) < TOTAL_PORTS ATmega328_A8
   \<and> bit (fst (readPort ATmega328_A8 0 0xFF (writePort ATmega328_A8 0 0x28 0xFF all_low))) 3
   \<and> \<not> bit (fst (readPort ATmega328_A8 0 0xFF (writePort ATmega328_A8 0 0x28 0xFF all_low))) 4
   \<and> \<not> bit (fst (readPort ATmega328_A8 0 0xFF (writePort ATmega328_A8 0 0x04 0xFF all_low))) 2
   \<and> writePort ATmega328_A8 0 0x28 0xFF (writePort ATmega328_A8 0 0x28 0xFF all_low)
       = writePort ATmega328_A8 0 0x28 0xFF all_low"
  using writePort_then_readPort [of 0 ATmega328_A8 "0xFF" "0x28" all_low]
    writePort_then_readPort [of 0 ATmega328_A8 "0xFF" "0x04" all_low]
  by (simp add: TOTAL_PORTS_def bit_and_iff)

end
